theory Spec2Isabelle
  imports Main "HOL-Library.Word"
begin

section \<open>The AWS SecretsManager key store (internal/keystore/aws/secrets-manager.go)\<close>

subsection \<open>Bytes and strings\<close>

text \<open>
  A Go \<open>string\<close> is a sequence of bytes, as is an Isabelle \<open>string\<close> (a list of 8-bit
  characters). A Go \<open>[]byte\<close> is a list of 8-bit words. The conversions
  \<open>string(value)\<close> and \<open>[]byte(s)\<close> copy byte by byte and validate nothing.
\<close>

type_synonym byte = "8 word"

definition string_of_bytes :: "byte list \<Rightarrow> string" where
  "string_of_bytes bs = map (\<lambda>b. char_of (unat b)) bs"

definition bytes_of_string :: "string \<Rightarrow> byte list" where
  "bytes_of_string s = map (\<lambda>c. word_of_nat (of_char c)) s"

subsection \<open>Text on the wire\<close>

text \<open>
  The client sends a text field inside a JSON document. Its serialiser walks the
  text rune by rune (\<open>utf8.DecodeRune\<close>) and writes the replacement character U+FFFD
  for every byte that starts no valid UTF-8 encoding; the service reads the document
  back into text. So the service receives the valid encodings as they are and the
  bytes \<open>EF BF BD\<close> in place of each invalid byte.

  \<open>tail_ok n lo hi bs\<close>: the next \<open>n\<close> bytes are there, the first within \<open>lo..hi\<close> and
  the others continuation bytes. \<open>rune_size\<close>: the size of the valid encoding at the
  head of the bytes, \<open>0\<close> when there is none.
\<close>

fun tail_ok :: "nat \<Rightarrow> nat \<Rightarrow> nat \<Rightarrow> nat list \<Rightarrow> bool" where
  "tail_ok 0 lo hi bs = True"
| "tail_ok (Suc n) lo hi [] = False"
| "tail_ok (Suc n) lo hi (b # bs) = (lo \<le> b \<and> b \<le> hi \<and> tail_ok n 0x80 0xBF bs)"

fun rune_size :: "nat list \<Rightarrow> nat" where
  "rune_size [] = 0"
| "rune_size (b # bs) =
     (if b < 0x80 then 1
      else if b < 0xC2 then 0
      else if b < 0xE0 then (if tail_ok 1 0x80 0xBF bs then 2 else 0)
      else if b < 0xF0
        then (if tail_ok 2 (if b = 0xE0 then 0xA0 else 0x80) (if b = 0xED then 0x9F else 0xBF) bs
              then 3 else 0)
      else if b < 0xF5
        then (if tail_ok 3 (if b = 0xF0 then 0x90 else 0x80) (if b = 0xF4 then 0x8F else 0xBF) bs
              then 4 else 0)
      else 0)"


text \<open>The text as the service receives it.\<close>

function wire_text :: "string \<Rightarrow> string" where
  "wire_text [] = []"
| "wire_text (c # cs) =
     (let n = rune_size (map of_char (c # cs))
      in if n = 0 then [CHR 0xEF, CHR 0xBF, CHR 0xBD] @ wire_text cs
         else take n (c # cs) @ wire_text (drop n (c # cs)))"
  by pat_completeness auto
termination
  by (relation "measure length") auto

subsection \<open>Errors\<close>

text \<open>
  The errors that reach the store from outside: the two context sentinels, the typed
  exceptions of the vendor's \<open>types\<close> package (each with its message), a generic
  \<open>smithy.APIError\<close> (code and message), any other error (its text), and an error
  that wraps a cause (its text before the cause, and the cause \<open>Unwrap\<close> returns), as
  \<open>smithy.OperationError\<close> and \<open>url.Error\<close> do.
\<close>

datatype sdk_error =
    Canceled
  | DeadlineExceeded
  | ResourceExistsException string
  | ResourceNotFoundException string
  | DecryptionFailure string
  | GenericAPIError string string
  | OtherError string
  | Wrapper string sdk_error

text \<open>
  What an operation of the store returns as its error: the error it received, as it is
  (\<open>return err\<close>), one of the two sentinels of the kes package, a new error made by
  \<open>fmt.Errorf\<close> with the verb \<open>%v\<close> (a text, with no cause to unwrap), or
  \<open>&keystore.ErrUnreachable{Err: err}\<close>.
\<close>

datatype go_error =
    SdkError sdk_error
  | ErrKeyExists
  | ErrKeyNotFound
  | Errorf string
  | ErrUnreachable sdk_error

text \<open>\<open>err.Error()\<close>, which \<open>%v\<close> prints.\<close>

fun error_text :: "sdk_error \<Rightarrow> string" where
  "error_text Canceled = ''context canceled''"
| "error_text DeadlineExceeded = ''context deadline exceeded''"
| "error_text (ResourceExistsException m) = ''ResourceExistsException: '' @ m"
| "error_text (ResourceNotFoundException m) = ''ResourceNotFoundException: '' @ m"
| "error_text (DecryptionFailure m) = ''DecryptionFailure: '' @ m"
| "error_text (GenericAPIError c m) = ''api error '' @ c @ '': '' @ m"
| "error_text (OtherError t) = t"
| "error_text (Wrapper t e) = t @ error_text e"

text \<open>\<open>errors.Is(err, target)\<close> for a sentinel target: walks the chain of causes.\<close>

fun errors_Is :: "sdk_error \<Rightarrow> sdk_error \<Rightarrow> bool" where
  "errors_Is (Wrapper t e) target = (Wrapper t e = target \<or> errors_Is e target)"
| "errors_Is e target = (e = target)"

text \<open>
  \<open>errors.As\<close> into each of the three typed exceptions: whether the chain holds one.
\<close>

fun as_ResourceExistsException :: "sdk_error \<Rightarrow> bool" where
  "as_ResourceExistsException (ResourceExistsException m) = True"
| "as_ResourceExistsException (Wrapper t e) = as_ResourceExistsException e"
| "as_ResourceExistsException e = False"

fun as_ResourceNotFoundException :: "sdk_error \<Rightarrow> bool" where
  "as_ResourceNotFoundException (ResourceNotFoundException m) = True"
| "as_ResourceNotFoundException (Wrapper t e) = as_ResourceNotFoundException e"
| "as_ResourceNotFoundException e = False"

fun as_DecryptionFailure :: "sdk_error \<Rightarrow> bool" where
  "as_DecryptionFailure (DecryptionFailure m) = True"
| "as_DecryptionFailure (Wrapper t e) = as_DecryptionFailure e"
| "as_DecryptionFailure e = False"

text \<open>
  \<open>errors.As(err, &apiErr)\<close> followed by \<open>apiErr.ErrorCode()\<close>: the code of the first
  error of the chain that implements \<open>smithy.APIError\<close>, if there is one. The typed
  exceptions implement it with their own name as the code.
\<close>

fun as_APIError_code :: "sdk_error \<Rightarrow> string option" where
  "as_APIError_code (ResourceExistsException m) = Some ''ResourceExistsException''"
| "as_APIError_code (ResourceNotFoundException m) = Some ''ResourceNotFoundException''"
| "as_APIError_code (DecryptionFailure m) = Some ''DecryptionFailure''"
| "as_APIError_code (GenericAPIError c m) = Some c"
| "as_APIError_code (Wrapper t e) = as_APIError_code e"
| "as_APIError_code e = None"

subsection \<open>Configuration\<close>

record Credentials =
  AccessKey :: string
  SecretKey :: string
  SessionToken :: string

record Config =
  Addr :: string
  Region :: string
  KMSKeyID :: string
  Login :: Credentials

text \<open>\<open>ctx.Err()\<close> of the caller's context.\<close>

datatype "context" = Background | CanceledContext | ExpiredContext

subsection \<open>The vendor SDK, as far as the store configures it\<close>

text \<open>
  A credentials provider: the static one, with its access key, secret key and session
  token, or the ambient chain (environment, shared files, instance metadata), with
  what the environment makes it yield: nothing wrong, or the error of its retrieval.
\<close>

datatype CredentialsProvider =
    StaticCredentialsProvider string string string
  | DefaultCredentialChain "sdk_error option"

datatype LoadOption =
    WithRegion string
  | WithCredentialsProvider CredentialsProvider

record aws_Config =
  cfg_Region :: string
  cfg_Credentials :: CredentialsProvider

record customEndpointResolver =
  endpoint :: string

datatype EndpointResolverV2 =
    DefaultEndpointResolverV2
  | CustomEndpointResolver customEndpointResolver

record EndpointParameters =
  ep_Region :: string
  ep_Endpoint :: "string option"

record Options =
  o_Region :: string
  o_Credentials :: CredentialsProvider
  o_BaseEndpoint :: "string option"
  o_EndpointResolverV2 :: EndpointResolverV2

text \<open>
  \<open>config.LoadDefaultConfig\<close>: the options are applied in order; with no credentials
  provider among them the SDK resolves the ambient chain (environment, shared files,
  instance metadata). The environment decides whether loading fails and what the
  ambient chain yields.
\<close>

fun apply_LoadOption :: "LoadOption \<Rightarrow> string \<times> CredentialsProvider option
    \<Rightarrow> string \<times> CredentialsProvider option" where
  "apply_LoadOption (WithRegion r) (region, provider) = (r, provider)"
| "apply_LoadOption (WithCredentialsProvider p) (region, provider) = (region, Some p)"

definition LoadDefaultConfig ::
    "sdk_error option \<Rightarrow> sdk_error option \<Rightarrow> LoadOption list \<Rightarrow> sdk_error + aws_Config" where
  "LoadDefaultConfig load_failure ambient opts =
     (case load_failure of
        Some err \<Rightarrow> Inl err
      | None \<Rightarrow>
          (case fold apply_LoadOption opts ('''', None) of
             (region, provider) \<Rightarrow>
               Inr \<lparr>cfg_Region = region,
                    cfg_Credentials =
                      (case provider of
                         Some p \<Rightarrow> p
                       | None \<Rightarrow> DefaultCredentialChain ambient)\<rparr>))"

text \<open>\<open>secretsmanager.NewFromConfig\<close>: the client's options, each option function applied.\<close>

definition NewFromConfig :: "aws_Config \<Rightarrow> (Options \<Rightarrow> Options) list \<Rightarrow> Options" where
  "NewFromConfig awsCfg clientOpts =
     fold (\<lambda>f o'. f o') clientOpts
       \<lparr>o_Region = cfg_Region awsCfg,
        o_Credentials = cfg_Credentials awsCfg,
        o_BaseEndpoint = None,
        o_EndpointResolverV2 = DefaultEndpointResolverV2\<rparr>"

text \<open>
  The SDK's default resolver: the endpoint given in the parameters when there is one,
  else the regional endpoint \<open>https://secretsmanager.<region>.<suffix>\<close>, where the
  suffix is the DNS suffix of the region's partition; no region is an error.
\<close>

definition HasPrefix :: "string \<Rightarrow> string \<Rightarrow> bool" where
  "HasPrefix s pfx = (take (length pfx) s = pfx)"

definition partition_dnsSuffix :: "string \<Rightarrow> string" where
  "partition_dnsSuffix region =
     (if HasPrefix region ''cn-'' then ''amazonaws.com.cn''
      else if HasPrefix region ''us-iso-'' then ''c2s.ic.gov''
      else if HasPrefix region ''us-isob-'' then ''sc2s.sgov.gov''
      else if HasPrefix region ''eu-isoe-'' then ''cloud.adc-e.uk''
      else if HasPrefix region ''us-isof-'' then ''csp.hci.ic.gov''
      else ''amazonaws.com'')"

definition DefaultResolveEndpoint :: "EndpointParameters \<Rightarrow> sdk_error + string" where
  "DefaultResolveEndpoint params =
     (case ep_Endpoint params of
        Some e \<Rightarrow> Inr e
      | None \<Rightarrow>
          (if ep_Region params = '''' then Inl (OtherError ''endpoint rule error, Invalid Configuration: Missing Region'')
           else Inr (''https://secretsmanager.'' @ ep_Region params @ ''.''
                       @ partition_dnsSuffix (ep_Region params))))"

text \<open>
  \<open>customEndpointResolver.ResolveEndpoint\<close> (lines 118-122): the body calls the default
  resolver on the parameters; the receiver's \<open>endpoint\<close> field is not read.
\<close>

definition ResolveEndpoint :: "customEndpointResolver \<Rightarrow> EndpointParameters \<Rightarrow> sdk_error + string" where
  "ResolveEndpoint r params = DefaultResolveEndpoint params"

text \<open>
  \<open>Retrieve\<close> of a credentials provider: the static provider fails when its access key
  or its secret key is empty; the ambient chain yields what the environment gave it.
\<close>

fun Retrieve :: "CredentialsProvider \<Rightarrow> sdk_error option" where
  "Retrieve (StaticCredentialsProvider accessKey secretKey sessionToken) =
     (if accessKey = '''' \<or> secretKey = '''' then Some (OtherError ''static credentials are empty'')
      else None)"
| "Retrieve (DefaultCredentialChain ambient) = ambient"

text \<open>
  What a call of the client goes through before it is sent, and the endpoint it is
  sent to: the identity is taken from the credentials provider, then the resolver is
  asked for the endpoint, on the client's parameters. A call whose credentials cannot
  be retrieved is not sent.
\<close>

definition client_endpoint :: "Options \<Rightarrow> sdk_error + string" where
  "client_endpoint c =
     (case Retrieve (o_Credentials c) of
        Some err \<Rightarrow>
          Inl (Wrapper ''get identity: get credentials: failed to refresh cached credentials, '' err)
      | None \<Rightarrow>
          (let params = \<lparr>ep_Region = o_Region c, ep_Endpoint = o_BaseEndpoint c\<rparr>
           in case o_EndpointResolverV2 c of
                DefaultEndpointResolverV2 \<Rightarrow> DefaultResolveEndpoint params
              | CustomEndpointResolver r \<Rightarrow> ResolveEndpoint r params))"

subsection \<open>The calls the store makes\<close>

record CreateSecretInput =
  ci_Name :: string
  ci_SecretString :: "string option"
  ci_SecretBinary :: "byte list option"
  ci_KmsKeyId :: "string option"

record GetSecretValueInput =
  gi_SecretId :: string

record GetSecretValueOutput =
  go_SecretString :: "string option"
  go_SecretBinary :: "byte list option"

record DeleteSecretInput =
  di_SecretId :: string
  di_ForceDeleteWithoutRecovery :: "bool option"

record ListSecretsOutput =
  lo_SecretList :: "string option list"
  lo_NextToken :: "string option"

text \<open>
  Everything outside the package that the store talks to, over a state \<open>'w\<close> of the
  service: whether loading the SDK configuration fails, the two steps of the HTTP probe
  (building the request, sending it: an error or the latency), what the ambient
  credential chain yields, and the four operations of the service at an endpoint, with
  their results as the client hands them over. An entry of a page of \<open>ListSecrets\<close> is
  the \<open>Name\<close> pointer of a secret.
\<close>

record 'w env =
  env_load_failure :: "sdk_error option"
  env_ambient_credentials :: "sdk_error option"
  env_NewRequest :: "context \<Rightarrow> string \<Rightarrow> sdk_error option"
  env_Do :: "context \<Rightarrow> string \<Rightarrow> sdk_error + nat"
  env_CreateSecret :: "string \<Rightarrow> context \<Rightarrow> CreateSecretInput \<Rightarrow> 'w \<Rightarrow> (sdk_error + unit) \<times> 'w"
  env_GetSecretValue :: "string \<Rightarrow> context \<Rightarrow> GetSecretValueInput \<Rightarrow> 'w \<Rightarrow> sdk_error + GetSecretValueOutput"
  env_DeleteSecret :: "string \<Rightarrow> context \<Rightarrow> DeleteSecretInput \<Rightarrow> 'w \<Rightarrow> (sdk_error + unit) \<times> 'w"
  env_ListSecrets :: "string \<Rightarrow> context \<Rightarrow> string option \<Rightarrow> 'w \<Rightarrow> sdk_error + ListSecretsOutput"

text \<open>The error of an operation of the client, as the SDK wraps it.\<close>

definition operation_error :: "string \<Rightarrow> sdk_error \<Rightarrow> sdk_error" where
  "operation_error operation err =
     Wrapper (''operation error Secrets Manager: '' @ operation @ '', '') err"

text \<open>
  A method of the client: it takes its identity and resolves its endpoint, and sends
  the call there. The secret text of \<open>CreateSecret\<close> reaches the service as the JSON
  serialiser leaves it.
\<close>

definition client_CreateSecret ::
    "'w env \<Rightarrow> Options \<Rightarrow> context \<Rightarrow> CreateSecretInput \<Rightarrow> 'w \<Rightarrow> (sdk_error + unit) \<times> 'w" where
  "client_CreateSecret env c ctx input w =
     (case client_endpoint c of
        Inl err \<Rightarrow> (Inl (operation_error ''CreateSecret'' err), w)
      | Inr ep \<Rightarrow>
          env_CreateSecret env ep ctx
            (input\<lparr>ci_SecretString := map_option wire_text (ci_SecretString input)\<rparr>) w)"

definition client_GetSecretValue ::
    "'w env \<Rightarrow> Options \<Rightarrow> context \<Rightarrow> GetSecretValueInput \<Rightarrow> 'w \<Rightarrow> sdk_error + GetSecretValueOutput" where
  "client_GetSecretValue env c ctx input w =
     (case client_endpoint c of
        Inl err \<Rightarrow> Inl (operation_error ''GetSecretValue'' err)
      | Inr ep \<Rightarrow> env_GetSecretValue env ep ctx input w)"

definition client_DeleteSecret ::
    "'w env \<Rightarrow> Options \<Rightarrow> context \<Rightarrow> DeleteSecretInput \<Rightarrow> 'w \<Rightarrow> (sdk_error + unit) \<times> 'w" where
  "client_DeleteSecret env c ctx input w =
     (case client_endpoint c of
        Inl err \<Rightarrow> (Inl (operation_error ''DeleteSecret'' err), w)
      | Inr ep \<Rightarrow> env_DeleteSecret env ep ctx input w)"

definition client_ListSecrets ::
    "'w env \<Rightarrow> Options \<Rightarrow> context \<Rightarrow> string option \<Rightarrow> 'w \<Rightarrow> sdk_error + ListSecretsOutput" where
  "client_ListSecrets env c ctx token w =
     (case client_endpoint c of
        Inl err \<Rightarrow> Inl (operation_error ''ListSecrets'' err)
      | Inr ep \<Rightarrow> env_ListSecrets env ep ctx token w)"

subsection \<open>The store\<close>

record Store =
  config :: Config
  client :: Options

text \<open>The name of an entry between single quotes, as \<open>'%s'\<close> prints it.\<close>

definition quoted :: "string \<Rightarrow> string" where
  "quoted name = CHR 0x27 # name @ [CHR 0x27]"

text \<open>\<open>Store.Status\<close> (lines 134-156).\<close>

definition Status :: "'w env \<Rightarrow> Store \<Rightarrow> context \<Rightarrow> go_error + nat" where
  "Status env s ctx =
     (let endpoint = (if Addr (config s) = ''''
                      then ''https://secretsmanager.'' @ Region (config s) @ ''.amazonaws.com''
                      else ''https://'' @ Addr (config s))
      in case env_NewRequest env ctx endpoint of
           Some err \<Rightarrow> Inl (SdkError err)
         | None \<Rightarrow>
             (case env_Do env ctx endpoint of
                Inl err \<Rightarrow> Inl (ErrUnreachable err)
              | Inr latency \<Rightarrow> Inr latency))"

text \<open>\<open>Connect\<close> (lines 60-111).\<close>

definition Connect_opts :: "Config \<Rightarrow> LoadOption list" where
  "Connect_opts cfg =
     (let opts = [WithRegion (Region cfg)]
      in if AccessKey (Login cfg) \<noteq> '''' \<or> SecretKey (Login cfg) \<noteq> '''' \<or> SessionToken (Login cfg) \<noteq> ''''
         then opts @ [WithCredentialsProvider
                        (StaticCredentialsProvider (AccessKey (Login cfg)) (SecretKey (Login cfg))
                           (SessionToken (Login cfg)))]
         else opts)"

definition Connect_clientOpts :: "Config \<Rightarrow> (Options \<Rightarrow> Options) list" where
  "Connect_clientOpts cfg =
     (if Addr cfg \<noteq> ''''
      then [\<lambda>o'. o'\<lparr>o_EndpointResolverV2 :=
                     CustomEndpointResolver \<lparr>endpoint = ''https://'' @ Addr cfg\<rparr>\<rparr>]
      else [])"

definition Connect :: "'w env \<Rightarrow> context \<Rightarrow> Config \<Rightarrow> go_error + Store" where
  "Connect env ctx cfg =
     (case LoadDefaultConfig (env_load_failure env) (env_ambient_credentials env)
             (Connect_opts cfg) of
        Inl err \<Rightarrow> Inl (SdkError err)
      | Inr awsCfg \<Rightarrow>
          (let c = \<lparr>config = cfg, client = NewFromConfig awsCfg (Connect_clientOpts cfg)\<rparr>
           in case Status env c ctx of
                Inl err \<Rightarrow> Inl err
              | Inr st \<Rightarrow> Inr c))"

text \<open>
  \<open>Store.Create\<close> (lines 165-188): first the input of the call (lines 166-172), then
  the call and the translation of its error.
\<close>

definition createInput :: "Store \<Rightarrow> string \<Rightarrow> byte list \<Rightarrow> CreateSecretInput" where
  "createInput s name val =
     (let input = \<lparr>ci_Name = name, ci_SecretString = Some (string_of_bytes val),
                   ci_SecretBinary = None, ci_KmsKeyId = None\<rparr>
      in if KMSKeyID (config s) \<noteq> ''''
         then input\<lparr>ci_KmsKeyId := Some (KMSKeyID (config s))\<rparr>
         else input)"

definition Create ::
    "'w env \<Rightarrow> Store \<Rightarrow> context \<Rightarrow> string \<Rightarrow> byte list \<Rightarrow> 'w \<Rightarrow> go_error option \<times> 'w" where
  "Create env s ctx name val w =
     (case client_CreateSecret env (client s) ctx (createInput s name val) w of
        (Inl err, w') \<Rightarrow>
          (if errors_Is err Canceled \<or> errors_Is err DeadlineExceeded then (Some (SdkError err), w')
           else if as_ResourceExistsException err then (Some ErrKeyExists, w')
           else (Some (Errorf (''aws: failed to create '' @ quoted name @ '': '' @ error_text err)), w'))
      | (Inr out, w') \<Rightarrow> (None, w'))"

text \<open>\<open>Store.Set\<close> (lines 197-199).\<close>

definition Set ::
    "'w env \<Rightarrow> Store \<Rightarrow> context \<Rightarrow> string \<Rightarrow> byte list \<Rightarrow> 'w \<Rightarrow> go_error option \<times> 'w" where
  "Set env s ctx name val w = Create env s ctx name val w"

text \<open>
  \<open>Store.Get\<close> (lines 203-250). The value returned is a \<open>[]byte\<close>; a nil
  \<open>SecretBinary\<close> is the empty list.
\<close>

definition Get :: "'w env \<Rightarrow> Store \<Rightarrow> context \<Rightarrow> string \<Rightarrow> 'w \<Rightarrow> go_error + byte list" where
  "Get env s ctx name w =
     (case client_GetSecretValue env (client s) ctx \<lparr>gi_SecretId = name\<rparr> w of
        Inl err \<Rightarrow>
          (if errors_Is err Canceled \<or> errors_Is err DeadlineExceeded then Inl (SdkError err)
           else if as_DecryptionFailure err
             then Inl (Errorf (''aws: cannot access '' @ quoted name @ '': '' @ error_text err))
           else if as_ResourceNotFoundException err then Inl ErrKeyNotFound
           else if as_APIError_code err = Some ''DecryptionFailureException''
             then Inl (Errorf (''aws: cannot access '' @ quoted name @ '': '' @ error_text err))
           else if as_APIError_code err = Some ''ResourceNotFoundException'' then Inl ErrKeyNotFound
           else Inl (Errorf (''aws: failed to read '' @ quoted name @ '': '' @ error_text err)))
      | Inr response \<Rightarrow>
          (case go_SecretString response of
             Some str \<Rightarrow> Inr (bytes_of_string str)
           | None \<Rightarrow> Inr (case go_SecretBinary response of Some b \<Rightarrow> b | None \<Rightarrow> [])))"

text \<open>\<open>Store.Delete\<close> (lines 254-280).\<close>

definition Delete ::
    "'w env \<Rightarrow> Store \<Rightarrow> context \<Rightarrow> string \<Rightarrow> 'w \<Rightarrow> go_error option \<times> 'w" where
  "Delete env s ctx name w =
     (case client_DeleteSecret env (client s) ctx
              \<lparr>di_SecretId = name, di_ForceDeleteWithoutRecovery = Some True\<rparr> w of
        (Inl err, w') \<Rightarrow>
          (if errors_Is err Canceled \<or> errors_Is err DeadlineExceeded then (Some (SdkError err), w')
           else if as_ResourceNotFoundException err then (Some ErrKeyNotFound, w')
           else if as_APIError_code err = Some ''ResourceNotFoundException'' then (Some ErrKeyNotFound, w')
           else (Some (Errorf (''aws: failed to delete '' @ quoted name @ '': '' @ error_text err)), w'))
      | (Inr out, w') \<Rightarrow> (None, w'))"

subsection \<open>Listing\<close>

text \<open>The SDK's \<open>ListSecretsPaginator\<close>: \<open>HasMorePages\<close> and \<open>NextPage\<close>.\<close>

record ListSecretsPaginator =
  firstPage :: bool
  nextToken :: "string option"

definition HasMorePages :: "ListSecretsPaginator \<Rightarrow> bool" where
  "HasMorePages p = (firstPage p \<or> (case nextToken p of Some t \<Rightarrow> t \<noteq> [] | None \<Rightarrow> False))"

definition NextPage ::
    "'w env \<Rightarrow> Options \<Rightarrow> context \<Rightarrow> 'w \<Rightarrow> ListSecretsPaginator
      \<Rightarrow> sdk_error + (ListSecretsOutput \<times> ListSecretsPaginator)" where
  "NextPage env c ctx w p =
     (if \<not> HasMorePages p then Inl (OtherError ''no more pages available'')
      else case client_ListSecrets env c ctx (nextToken p) w of
             Inl err \<Rightarrow> Inl err
           | Inr result \<Rightarrow> Inr (result, \<lparr>firstPage = False, nextToken = lo_NextToken result\<rparr>))"

text \<open>The inner loop of \<open>Store.List\<close> (lines 305-309): the names that are not nil.\<close>

fun page_names :: "string option list \<Rightarrow> string list" where
  "page_names [] = []"
| "page_names (None # secrets) = page_names secrets"
| "page_names (Some name # secrets) = name # page_names secrets"

text \<open>
  The outer loop of \<open>Store.List\<close> (lines 299-310). It runs for as long as the service
  hands out a next token, so it is a partial function: \<open>None\<close> is the loop that never
  ends.
\<close>

partial_function (option) List_pages ::
    "'w env \<Rightarrow> Options \<Rightarrow> context \<Rightarrow> 'w \<Rightarrow> ListSecretsPaginator \<Rightarrow> string list
      \<Rightarrow> (sdk_error + string list) option" where
  "List_pages env c ctx w paginator names =
     (if HasMorePages paginator
      then (case NextPage env c ctx w paginator of
              Inl err \<Rightarrow> Some (Inl err)
            | Inr (page, paginator') \<Rightarrow>
                List_pages env c ctx w paginator' (names @ page_names (lo_SecretList page)))
      else Some (Inr names))"

declare List_pages.simps [code]

text \<open>
  Modelled from the spec: \<open>keystore.List\<close> of the package internal/keystore, which is
  not among the sources. The spec (4.1, List): the names are filtered to those that
  start with the prefix; at most \<open>limit\<close> of them are returned, all of them when the limit
  is negative, with a cursor for resuming after the last returned name, which is empty
  when no further matches remain. The cursor is the first matching name not returned.
\<close>

definition keystore_List :: "string list \<Rightarrow> string \<Rightarrow> int \<Rightarrow> string list \<times> string" where
  "keystore_List names pfx n =
     (let matches = filter (\<lambda>name. HasPrefix name pfx) names
      in if n < 0 then (matches, '''')
         else if nat n < length matches then (take (nat n) matches, matches ! nat n)
         else (matches, ''''))"

text \<open>\<open>Store.List\<close> (lines 294-313).\<close>

definition List ::
    "'w env \<Rightarrow> Store \<Rightarrow> context \<Rightarrow> string \<Rightarrow> int \<Rightarrow> 'w \<Rightarrow> (go_error + string list \<times> string) option" where
  "List env s ctx pfx n w =
     (case List_pages env (client s) ctx w \<lparr>firstPage = True, nextToken = None\<rparr> [] of
        None \<Rightarrow> None
      | Some (Inl err) \<Rightarrow> Some (Inl (SdkError err))
      | Some (Inr names) \<Rightarrow> Some (Inr (keystore_List names pfx n)))"

subsection \<open>A vault\<close>

text \<open>
  Modelled from the spec: the vault, a service outside this repository. The spec's data
  model (section 3): an entry is a unique name with an opaque value; creating a name
  that is present fails with "already exists", reading or deleting a name that is absent
  fails with "not found". The payload is kept in the representation it was sent in
  (text or binary). A delete with the force flag removes the entry at once; without
  it the entry stays for the recovery window. A call under a context that is done
  fails with the context's error, wrapped by the SDK. The listing is served in
  pages of \<open>page_size\<close> names; the token of a page is as long as the number of names
  before it.
\<close>

record secret =
  s_String :: "string option"
  s_Binary :: "byte list option"
  s_KmsKeyId :: "string option"

type_synonym vault = "(string \<times> secret) list"

fun context_Err :: "context \<Rightarrow> sdk_error option" where
  "context_Err Background = None"
| "context_Err CanceledContext = Some Canceled"
| "context_Err ExpiredContext = Some DeadlineExceeded"

definition vault_CreateSecret ::
    "string \<Rightarrow> context \<Rightarrow> CreateSecretInput \<Rightarrow> vault \<Rightarrow> (sdk_error + unit) \<times> vault" where
  "vault_CreateSecret ep ctx input v =
     (case context_Err ctx of
        Some err \<Rightarrow> (Inl (operation_error ''CreateSecret'' err), v)
      | None \<Rightarrow>
          (if ci_Name input \<in> set (map fst v)
           then (Inl (operation_error ''CreateSecret''
                        (ResourceExistsException ''the secret already exists'')), v)
           else (Inr (), v @ [(ci_Name input,
                               \<lparr>s_String = ci_SecretString input,
                                s_Binary = ci_SecretBinary input,
                                s_KmsKeyId = ci_KmsKeyId input\<rparr>)])))"

definition vault_GetSecretValue ::
    "string \<Rightarrow> context \<Rightarrow> GetSecretValueInput \<Rightarrow> vault \<Rightarrow> sdk_error + GetSecretValueOutput" where
  "vault_GetSecretValue ep ctx input v =
     (case context_Err ctx of
        Some err \<Rightarrow> Inl (operation_error ''GetSecretValue'' err)
      | None \<Rightarrow>
          (case map_of v (gi_SecretId input) of
             None \<Rightarrow> Inl (operation_error ''GetSecretValue''
                            (ResourceNotFoundException ''cannot find the specified secret''))
           | Some sec \<Rightarrow> Inr \<lparr>go_SecretString = s_String sec, go_SecretBinary = s_Binary sec\<rparr>))"

definition vault_DeleteSecret ::
    "string \<Rightarrow> context \<Rightarrow> DeleteSecretInput \<Rightarrow> vault \<Rightarrow> (sdk_error + unit) \<times> vault" where
  "vault_DeleteSecret ep ctx input v =
     (case context_Err ctx of
        Some err \<Rightarrow> (Inl (operation_error ''DeleteSecret'' err), v)
      | None \<Rightarrow>
          (if di_SecretId input \<notin> set (map fst v)
           then (Inl (operation_error ''DeleteSecret''
                        (ResourceNotFoundException ''cannot find the specified secret'')), v)
           else if di_ForceDeleteWithoutRecovery input = Some True
           then (Inr (), filter (\<lambda>entry. fst entry \<noteq> di_SecretId input) v)
           else (Inr (), v)))"

definition vault_ListSecrets ::
    "nat \<Rightarrow> string \<Rightarrow> context \<Rightarrow> string option \<Rightarrow> vault \<Rightarrow> sdk_error + ListSecretsOutput" where
  "vault_ListSecrets page_size ep ctx token v =
     (case context_Err ctx of
        Some err \<Rightarrow> Inl (operation_error ''ListSecrets'' err)
      | None \<Rightarrow>
          (let i = (case token of None \<Rightarrow> 0 | Some t \<Rightarrow> length t)
           in Inr \<lparr>lo_SecretList = map Some (take page_size (drop i (map fst v))),
                   lo_NextToken = (if i + page_size < length v
                                   then Some (replicate (i + page_size) CHR ''t'')
                                   else None)\<rparr>))"

definition vault_env :: "nat \<Rightarrow> vault env" where
  "vault_env page_size =
     \<lparr>env_load_failure = None,
      env_ambient_credentials = None,
      env_NewRequest = (\<lambda>ctx url. None),
      env_Do = (\<lambda>ctx url. case context_Err ctx of
                             Some err \<Rightarrow> Inl (Wrapper ''Get: '' err)
                           | None \<Rightarrow> Inr 0),
      env_CreateSecret = vault_CreateSecret,
      env_GetSecretValue = vault_GetSecretValue,
      env_DeleteSecret = vault_DeleteSecret,
      env_ListSecrets = vault_ListSecrets page_size\<rparr>"

subsection \<open>Example configurations and environments\<close>

text \<open>
  A configuration with a custom address and a full pair of static keys, and the
  store \<open>Connect\<close> builds from it.
\<close>

definition local_config :: Config where
  "local_config =
     \<lparr>Addr = ''localhost:4566'', Region = ''us-east-1'', KMSKeyID = '''',
      Login = \<lparr>AccessKey = ''AKIA'', SecretKey = ''wJalr'', SessionToken = ''''\<rparr>\<rparr>"

definition local_store :: Store where
  "local_store =
     \<lparr>config = local_config,
      client = \<lparr>o_Region = ''us-east-1'',
                o_Credentials = StaticCredentialsProvider ''AKIA'' ''wJalr'' '''',
                o_BaseEndpoint = None,
                o_EndpointResolverV2 =
                  CustomEndpointResolver \<lparr>endpoint = ''https://localhost:4566''\<rparr>\<rparr>\<rparr>"

text \<open>
  A configuration with only an access key, and one with no credentials and no custom
  address.
\<close>

definition access_key_only_config :: Config where
  "access_key_only_config =
     \<lparr>Addr = ''localhost:4566'', Region = ''us-east-1'', KMSKeyID = '''',
      Login = \<lparr>AccessKey = ''AKIA'', SecretKey = '''', SessionToken = ''''\<rparr>\<rparr>"

definition no_login_config :: Config where
  "no_login_config =
     \<lparr>Addr = '''', Region = ''eu-west-1'', KMSKeyID = '''',
      Login = \<lparr>AccessKey = '''', SecretKey = '''', SessionToken = ''''\<rparr>\<rparr>"

text \<open>
  An environment whose service keeps, as its state, the endpoints at which it was
  called.
\<close>

definition recording_env :: "string list env" where
  "recording_env =
     \<lparr>env_load_failure = None,
      env_ambient_credentials = None,
      env_NewRequest = (\<lambda>ctx url. None),
      env_Do = (\<lambda>ctx url. Inr 0),
      env_CreateSecret = (\<lambda>ep ctx input w. (Inr (), w @ [ep])),
      env_GetSecretValue = (\<lambda>ep ctx input w.
         Inr \<lparr>go_SecretString = Some ep, go_SecretBinary = None\<rparr>),
      env_DeleteSecret = (\<lambda>ep ctx input w. (Inr (), w @ [ep])),
      env_ListSecrets = (\<lambda>ep ctx token w.
         Inr \<lparr>lo_SecretList = [Some ep], lo_NextToken = None\<rparr>)\<rparr>"

text \<open>An environment whose service refuses every call.\<close>

definition access_denied :: sdk_error where
  "access_denied = GenericAPIError ''AccessDeniedException'' ''not authorized''"

definition denying_env :: "unit env" where
  "denying_env =
     \<lparr>env_load_failure = None,
      env_ambient_credentials = None,
      env_NewRequest = (\<lambda>ctx url. None),
      env_Do = (\<lambda>ctx url. Inr 0),
      env_CreateSecret = (\<lambda>ep ctx input w. (Inl (operation_error ''CreateSecret'' access_denied), w)),
      env_GetSecretValue = (\<lambda>ep ctx input w. Inl (operation_error ''GetSecretValue'' access_denied)),
      env_DeleteSecret = (\<lambda>ep ctx input w. (Inl (operation_error ''DeleteSecret'' access_denied), w)),
      env_ListSecrets = (\<lambda>ep ctx token w. Inl (operation_error ''ListSecrets'' access_denied))\<rparr>"

text \<open>
  An environment whose listing serves a first page with a next token and fails on
  the second page with the error it is given.
\<close>

definition second_page_fails_env :: "sdk_error \<Rightarrow> unit env" where
  "second_page_fails_env err =
     \<lparr>env_load_failure = None,
      env_ambient_credentials = None,
      env_NewRequest = (\<lambda>ctx url. None),
      env_Do = (\<lambda>ctx url. Inr 0),
      env_CreateSecret = (\<lambda>ep ctx input w. (Inr (), w)),
      env_GetSecretValue = (\<lambda>ep ctx input w.
         Inr \<lparr>go_SecretString = Some ''x'', go_SecretBinary = None\<rparr>),
      env_DeleteSecret = (\<lambda>ep ctx input w. (Inr (), w)),
      env_ListSecrets = (\<lambda>ep ctx token w.
         case token of
           None \<Rightarrow> Inr \<lparr>lo_SecretList = [Some ''db-a''], lo_NextToken = Some ''page-2''\<rparr>
         | Some t \<Rightarrow> Inl (operation_error ''ListSecrets'' err))\<rparr>"

text \<open>Vaults with one text entry, with one binary entry, and with four entries.\<close>

definition one_key :: vault where
  "one_key = [(''db-key-1'', \<lparr>s_String = Some ''secret-v1'', s_Binary = None, s_KmsKeyId = None\<rparr>)]"

definition binary_key :: vault where
  "binary_key = [(''raw'', \<lparr>s_String = None, s_Binary = Some [0xDE, 0xAD], s_KmsKeyId = None\<rparr>)]"

definition db_keys :: vault where
  "db_keys =
     [(''db-a'', \<lparr>s_String = Some ''a'', s_Binary = None, s_KmsKeyId = None\<rparr>),
      (''other'', \<lparr>s_String = Some ''o'', s_Binary = None, s_KmsKeyId = None\<rparr>),
      (''db-b'', \<lparr>s_String = Some ''b'', s_Binary = None, s_KmsKeyId = None\<rparr>),
      (''db-c'', \<lparr>s_String = Some ''c'', s_Binary = None, s_KmsKeyId = None\<rparr>)]"

subsection \<open>The course of the page loop\<close>

text \<open>
  \<open>pages_fetched env c ctx w p pages p'\<close>: from the paginator \<open>p\<close> the fetches of the
  loop succeed one after the other with \<open>pages\<close>, and leave the paginator \<open>p'\<close>.
\<close>

fun pages_fetched ::
    "'w env \<Rightarrow> Options \<Rightarrow> context \<Rightarrow> 'w \<Rightarrow> ListSecretsPaginator \<Rightarrow> ListSecretsOutput list
      \<Rightarrow> ListSecretsPaginator \<Rightarrow> bool" where
  "pages_fetched env c ctx w p [] p' = (p' = p)"
| "pages_fetched env c ctx w p (page # pages) p' =
     (HasMorePages p \<and> client_ListSecrets env c ctx (nextToken p) w = Inr page
      \<and> pages_fetched env c ctx w \<lparr>firstPage = False, nextToken = lo_NextToken page\<rparr> pages p')"

section \<open>Properties\<close>

subsection \<open>Auxiliary facts\<close>

lemma bytes_of_string_of_bytes: "bytes_of_string (string_of_bytes bs) = bs"
proof -
  have "word_of_nat (of_char (char_of (unat b) :: char)) = b" for b :: byte
  proof -
    have "unat b < 256" using unsigned_less [of b] by simp
    then show ?thesis by simp
  qed
  then show ?thesis
    unfolding bytes_of_string_def string_of_bytes_def by (simp add: map_idI)
qed

text \<open>The bytes of a text are its characters, one for one.\<close>

lemma bytes_of_string_nth:
  "length (bytes_of_string str) = length str
   \<and> (\<forall>i < length str. unat (bytes_of_string str ! i) = of_char (str ! i))"
proof -
  have "unat (word_of_nat (of_char c) :: byte) = of_char c" for c :: char
  proof -
    have "(of_char c :: nat) mod 256 < 256" by simp
    then have "(of_char c :: nat) < 256" by (simp only: of_char_mod_256)
    then show ?thesis by (simp add: unat_of_nat take_bit_nat_eq_self)
  qed
  then show ?thesis by (simp add: bytes_of_string_def)
qed


lemma createInput_fields:
  "ci_Name (createInput s name val) = name"
  "ci_SecretString (createInput s name val) = Some (string_of_bytes val)"
  "ci_SecretBinary (createInput s name val) = None"
  by (simp_all add: createInput_def Let_def)

lemma operation_error_simps:
  "errors_Is (operation_error operation e) Canceled = errors_Is e Canceled"
  "errors_Is (operation_error operation e) DeadlineExceeded = errors_Is e DeadlineExceeded"
  "as_ResourceExistsException (operation_error operation e) = as_ResourceExistsException e"
  "as_ResourceNotFoundException (operation_error operation e) = as_ResourceNotFoundException e"
  "as_DecryptionFailure (operation_error operation e) = as_DecryptionFailure e"
  "as_APIError_code (operation_error operation e) = as_APIError_code e"
  by (simp_all add: operation_error_def)

lemma Connect_local: "Connect (vault_env k) Background local_config = Inr local_store"
  by (simp add: Connect_def local_config_def local_store_def vault_env_def LoadDefaultConfig_def
      Connect_opts_def Connect_clientOpts_def NewFromConfig_def Status_def)

lemma local_endpoint:
  "client_endpoint (client local_store) = Inr ''https://secretsmanager.us-east-1.amazonaws.com''"
  by (simp add: client_endpoint_def local_store_def ResolveEndpoint_def DefaultResolveEndpoint_def
      partition_dnsSuffix_def HasPrefix_def)


text \<open>
  The resolver of a custom endpoint answers as the default resolver does, whatever its
  \<open>endpoint\<close> field holds.
\<close>

lemma ResolveEndpoint_ignores_endpoint:
  "ResolveEndpoint \<lparr>endpoint = a\<rparr> params = ResolveEndpoint \<lparr>endpoint = b\<rparr> params"
  by (simp add: ResolveEndpoint_def)

subsection \<open>The page loop\<close>

text \<open>
  A fetch that fails ends the loop with its error, at whatever page the loop has
  arrived: induction on the pages fetched before.
\<close>

lemma List_pages_fetch_fails:
  "HasMorePages p \<Longrightarrow> client_ListSecrets env c ctx (nextToken p) w = Inl err
     \<Longrightarrow> List_pages env c ctx w p acc = Some (Inl err)"
  by (subst List_pages.simps) (simp add: NextPage_def)

lemma List_pages_fetch_error:
  "pages_fetched env c ctx w p pages p' \<Longrightarrow> HasMorePages p'
     \<Longrightarrow> client_ListSecrets env c ctx (nextToken p') w = Inl err
     \<Longrightarrow> List_pages env c ctx w p acc = Some (Inl err)"
proof (induction pages arbitrary: p acc)
  case Nil
  then show ?case by (simp add: List_pages_fetch_fails)
next
  case (Cons page pages)
  let ?p1 = "\<lparr>firstPage = False, nextToken = lo_NextToken page\<rparr>"
  from Cons.prems(1) have more: "HasMorePages p"
    and fetch: "client_ListSecrets env c ctx (nextToken p) w = Inr page"
    and rest: "pages_fetched env c ctx w ?p1 pages p'"
    by simp_all
  have "List_pages env c ctx w ?p1 (acc @ page_names (lo_SecretList page)) = Some (Inl err)"
    using rest Cons.prems(2,3) by (rule Cons.IH)
  with more fetch show ?case
    by (subst List_pages.simps) (simp add: NextPage_def)
qed

lemma List_fetch_error:
  assumes "pages_fetched env (client s) ctx w \<lparr>firstPage = True, nextToken = None\<rparr> pages p"
    and "HasMorePages p"
    and "client_ListSecrets env (client s) ctx (nextToken p) w = Inl err"
  shows "List env s ctx pfx n w = Some (Inl (SdkError err))"
  using List_pages_fetch_error [OF assms, of "[]"] by (simp add: List_def)

text \<open>
  Whatever error the page loop returns is the error of one of its page fetches. The
  proof is by the induction rule of the partial function.
\<close>

lemma List_pages_error:
  assumes "List_pages env c ctx w p acc = Some r"
  shows "\<forall>err. r = Inl err \<longrightarrow> (\<exists>token. client_ListSecrets env c ctx token w = Inl err)"
proof (rule List_pages.raw_induct
    [where P = "\<lambda>env c ctx w p acc r.
        \<forall>err. r = Inl err \<longrightarrow> (\<exists>token. client_ListSecrets env c ctx token w = Inl err)",
      OF _ assms])
  fix loop :: "'a env \<Rightarrow> Options \<Rightarrow> context \<Rightarrow> 'a \<Rightarrow> ListSecretsPaginator \<Rightarrow> string list
      \<Rightarrow> (sdk_error + string list) option"
  fix env c ctx w p acc r
  assume IH: "\<And>env c ctx w p acc r. loop env c ctx w p acc = Some r
      \<Longrightarrow> \<forall>err. r = Inl err \<longrightarrow> (\<exists>token. client_ListSecrets env c ctx token w = Inl err)"
  assume body: "(if HasMorePages p
      then (case NextPage env c ctx w p of
              Inl err \<Rightarrow> Some (Inl err)
            | Inr (page, paginator') \<Rightarrow> loop env c ctx w paginator' (acc @ page_names (lo_SecretList page)))
      else Some (Inr acc)) = Some r"
  show "\<forall>err. r = Inl err \<longrightarrow> (\<exists>token. client_ListSecrets env c ctx token w = Inl err)"
  proof (cases "HasMorePages p")
    case False
    with body show ?thesis by auto
  next
    case True
    show ?thesis
    proof (cases "NextPage env c ctx w p")
      case (Inl e)
      with True have "client_ListSecrets env c ctx (nextToken p) w = Inl e"
        by (auto simp: NextPage_def split: sum.splits)
      with body True Inl show ?thesis by auto
    next
      case (Inr pr)
      obtain page p' where pr: "pr = (page, p')" by (cases pr)
      with body True Inr have "loop env c ctx w p' (acc @ page_names (lo_SecretList page)) = Some r"
        by simp
      then show ?thesis by (rule IH)
    qed
  qed
qed

lemma List_error_is_page_error:
  assumes "List env s ctx pfx n w = Some (Inl e)"
  shows "\<exists>token err. client_ListSecrets env (client s) ctx token w = Inl err \<and> e = SdkError err"
proof -
  from assms obtain err where
    p: "List_pages env (client s) ctx w \<lparr>firstPage = True, nextToken = None\<rparr> [] = Some (Inl err)"
    and e: "e = SdkError err"
    by (auto simp: List_def split: option.splits sum.splits)
  from List_pages_error [OF p] e show ?thesis by blast
qed

subsection \<open>The page loop against the vault\<close>

lemma page_names_map_Some: "page_names (map Some xs) = xs"
  by (induction xs) simp_all

lemma vault_NextPage:
  assumes "client_endpoint c = Inr ep" and "HasMorePages p"
  shows "NextPage (vault_env k) c Background v p =
           (let i = (case nextToken p of None \<Rightarrow> 0 | Some t \<Rightarrow> length t)
            in Inr (\<lparr>lo_SecretList = map Some (take k (drop i (map fst v))),
                     lo_NextToken = (if i + k < length v
                                     then Some (replicate (i + k) CHR ''t'') else None)\<rparr>,
                    \<lparr>firstPage = False,
                     nextToken = (if i + k < length v
                                  then Some (replicate (i + k) CHR ''t'') else None)\<rparr>))"
  using assms
  by (simp add: NextPage_def client_ListSecrets_def vault_env_def vault_ListSecrets_def Let_def)

lemma List_pages_vault_step:
  assumes "client_endpoint c = Inr ep" and "HasMorePages p"
    and "i = (case nextToken p of None \<Rightarrow> 0 | Some t \<Rightarrow> length t)"
  shows "List_pages (vault_env k) c Background v p acc =
           List_pages (vault_env k) c Background v
             \<lparr>firstPage = False,
              nextToken = (if i + k < length v then Some (replicate (i + k) CHR ''t'') else None)\<rparr>
             (acc @ take k (drop i (map fst v)))"
  using assms(2,3)
  by (subst List_pages.simps)
    (simp add: vault_NextPage [OF assms(1)] Let_def page_names_map_Some)

lemma List_pages_done:
  "List_pages env c ctx w \<lparr>firstPage = False, nextToken = None\<rparr> acc = Some (Inr acc)"
  by (subst List_pages.simps) (simp add: HasMorePages_def)

text \<open>
  With pages of at least one name the loop ends, having collected every name from the
  offset of its token on: induction on the number of names still to fetch.
\<close>

lemma List_pages_vault:
  assumes k: "0 < k" and ep: "client_endpoint c = Inr ep"
  shows "HasMorePages p \<Longrightarrow> i = (case nextToken p of None \<Rightarrow> 0 | Some t \<Rightarrow> length t)
     \<Longrightarrow> List_pages (vault_env k) c Background v p acc = Some (Inr (acc @ drop i (map fst v)))"
proof (induction "length v - i" arbitrary: i p acc rule: less_induct)
  case less
  let ?names = "map fst v"
  note step = List_pages_vault_step [OF ep less.prems, of k v acc]
  show ?case
  proof (cases "i + k < length v")
    case True
    let ?p' = "\<lparr>firstPage = False, nextToken = Some (replicate (i + k) CHR ''t'')\<rparr>"
    have more: "HasMorePages ?p'" using k by (simp add: HasMorePages_def)
    have "List_pages (vault_env k) c Background v ?p' (acc @ take k (drop i ?names))
            = Some (Inr ((acc @ take k (drop i ?names)) @ drop (i + k) ?names))"
      using True k by (intro less.hyps more) auto
    moreover have "take k (drop i ?names) @ drop (i + k) ?names = drop i ?names"
      by (metis add.commute append_take_drop_id drop_drop)
    ultimately show ?thesis
      using True by (simp add: step)
  next
    case False
    then have "take k (drop i ?names) = drop i ?names" by simp
    with False show ?thesis
      by (simp add: step List_pages_done)
  qed
qed

lemma List_vault:
  assumes "0 < k" and "client_endpoint (client s) = Inr ep"
  shows "List (vault_env k) s Background pfx n v = Some (Inr (keystore_List (map fst v) pfx n))"
  using List_pages_vault [OF assms, of "\<lparr>firstPage = True, nextToken = None\<rparr>" 0 v "[]"]
  by (simp add: List_def HasMorePages_def)

lemma keystore_List_props:
  assumes "distinct names" and "'''' \<notin> set names"
  shows "\<exists>result cursor. keystore_List names pfx n = (result, cursor)
           \<and> (n < 0 \<longrightarrow> result = filter (\<lambda>name. HasPrefix name pfx) names)
           \<and> (0 \<le> n \<longrightarrow> result = take (nat n) (filter (\<lambda>name. HasPrefix name pfx) names)
                          \<and> int (length result) \<le> n)
           \<and> (cursor = '''' \<longleftrightarrow> result = filter (\<lambda>name. HasPrefix name pfx) names)
           \<and> distinct result
           \<and> (pfx = '''' \<and> n < 0 \<longrightarrow> set result = set names)"
proof -
  let ?m = "filter (\<lambda>name. HasPrefix name pfx) names"
  have d: "distinct ?m" using assms by simp
  show ?thesis
  proof (cases "n < 0")
    case True
    then show ?thesis using d by (simp add: keystore_List_def HasPrefix_def)
  next
    case False
    show ?thesis
    proof (cases "nat n < length ?m")
      case True
      then have "?m ! nat n \<in> set ?m" by (rule nth_mem)
      then have ne: "?m ! nat n \<noteq> ''''" using assms(2) by auto
      have "length (take (nat n) ?m) < length ?m" using True by simp
      then have neq: "take (nat n) ?m \<noteq> ?m" by (metis less_irrefl)
      show ?thesis using False True ne neq d
        by (simp add: keystore_List_def Let_def)
    next
      case F: False
      then show ?thesis using False d
        by (simp add: keystore_List_def Let_def)
    qed
  qed
qed

subsection \<open>Connect\<close>

text \<open>
  C1. The claim: with a non-empty \<open>Addr\<close>, every vault call of the store \<open>Connect\<close>
  returns is issued against \<open>https://\<close> + \<open>Addr\<close>. The code at an input: \<open>Connect\<close>
  on the configuration with \<open>Addr = localhost:4566\<close>, region \<open>us-east-1\<close> and both static
  keys set succeeds and installs the custom resolver; the client's credentials are
  retrieved, yet the client resolves the regional endpoint, and the \<open>CreateSecret\<close>
  call of \<open>Create\<close> arrives there: \<open>ResolveEndpoint\<close> never reads the \<open>endpoint\<close> field.
\<close>

theorem custom_endpoint_not_used:
  "Connect recording_env Background local_config = Inr local_store
   \<and> Addr (config local_store) = ''localhost:4566''
   \<and> o_EndpointResolverV2 (client local_store)
       = CustomEndpointResolver \<lparr>endpoint = ''https://localhost:4566''\<rparr>
   \<and> Retrieve (o_Credentials (client local_store)) = None
   \<and> client_endpoint (client local_store) = Inr ''https://secretsmanager.us-east-1.amazonaws.com''
   \<and> Create recording_env local_store Background ''key'' [] []
       = (None, [''https://secretsmanager.us-east-1.amazonaws.com''])"
  by (simp add: Connect_def local_config_def local_store_def recording_env_def LoadDefaultConfig_def
      Connect_opts_def Connect_clientOpts_def NewFromConfig_def Status_def
      client_endpoint_def ResolveEndpoint_def DefaultResolveEndpoint_def Create_def
      client_CreateSecret_def partition_dnsSuffix_def HasPrefix_def)

text \<open>
  C10. When loading the SDK configuration does not fail and the probe of \<open>Status\<close>
  succeeds, \<open>Connect\<close> returns the store whose client holds the static credentials
  provider, made of the three fields as they are, when at least one of the three is
  not empty, and the ambient chain only when all three are empty.
\<close>

theorem Connect_credentials:
  assumes "env_load_failure env = None"
    and "env_NewRequest env ctx
           (if Addr cfg = '''' then ''https://secretsmanager.'' @ Region cfg @ ''.amazonaws.com''
            else ''https://'' @ Addr cfg) = None"
    and "env_Do env ctx
           (if Addr cfg = '''' then ''https://secretsmanager.'' @ Region cfg @ ''.amazonaws.com''
            else ''https://'' @ Addr cfg) = Inr latency"
  shows "Connect env ctx cfg =
           Inr \<lparr>config = cfg,
                client =
                  \<lparr>o_Region = Region cfg,
                   o_Credentials =
                     (if AccessKey (Login cfg) \<noteq> '''' \<or> SecretKey (Login cfg) \<noteq> ''''
                           \<or> SessionToken (Login cfg) \<noteq> ''''
                      then StaticCredentialsProvider (AccessKey (Login cfg)) (SecretKey (Login cfg))
                             (SessionToken (Login cfg))
                      else DefaultCredentialChain (env_ambient_credentials env)),
                   o_BaseEndpoint = None,
                   o_EndpointResolverV2 =
                     (if Addr cfg \<noteq> ''''
                      then CustomEndpointResolver \<lparr>endpoint = ''https://'' @ Addr cfg\<rparr>
                      else DefaultEndpointResolverV2)\<rparr>\<rparr>"
proof (cases "Addr cfg = []")
  case True
  with assms show ?thesis
    by (simp add: Connect_def LoadDefaultConfig_def Connect_opts_def Connect_clientOpts_def
        NewFromConfig_def Status_def Let_def)
next
  case False
  with assms show ?thesis
    by (simp add: Connect_def LoadDefaultConfig_def Connect_opts_def Connect_clientOpts_def
        NewFromConfig_def Status_def Let_def)
qed

theorem Connect_credentials_witness:
  "SecretKey (Login access_key_only_config) = '''' \<and> SessionToken (Login access_key_only_config) = ''''
   \<and> Connect (vault_env 1) Background access_key_only_config =
       Inr \<lparr>config = access_key_only_config,
            client = \<lparr>o_Region = ''us-east-1'',
                      o_Credentials = StaticCredentialsProvider ''AKIA'' '''' '''',
                      o_BaseEndpoint = None,
                      o_EndpointResolverV2 =
                        CustomEndpointResolver \<lparr>endpoint = ''https://localhost:4566''\<rparr>\<rparr>\<rparr>
   \<and> Retrieve (StaticCredentialsProvider ''AKIA'' '''' '''')
       = Some (OtherError ''static credentials are empty'')
   \<and> Connect (vault_env 1) Background no_login_config =
       Inr \<lparr>config = no_login_config,
            client = \<lparr>o_Region = ''eu-west-1'',
                      o_Credentials = DefaultCredentialChain None,
                      o_BaseEndpoint = None,
                      o_EndpointResolverV2 = DefaultEndpointResolverV2\<rparr>\<rparr>"
proof -
  have 1: "Connect (vault_env 1) Background access_key_only_config =
       Inr \<lparr>config = access_key_only_config,
            client = \<lparr>o_Region = ''us-east-1'',
                      o_Credentials = StaticCredentialsProvider ''AKIA'' '''' '''',
                      o_BaseEndpoint = None,
                      o_EndpointResolverV2 =
                        CustomEndpointResolver \<lparr>endpoint = ''https://localhost:4566''\<rparr>\<rparr>\<rparr>"
    using Connect_credentials [of "vault_env 1" Background access_key_only_config 0]
    by (simp add: vault_env_def access_key_only_config_def)
  have 2: "Connect (vault_env 1) Background no_login_config =
       Inr \<lparr>config = no_login_config,
            client = \<lparr>o_Region = ''eu-west-1'',
                      o_Credentials = DefaultCredentialChain None,
                      o_BaseEndpoint = None,
                      o_EndpointResolverV2 = DefaultEndpointResolverV2\<rparr>\<rparr>"
    using Connect_credentials [of "vault_env 1" Background no_login_config 0]
    by (simp add: vault_env_def no_login_config_def)
  from 1 2 show ?thesis by (simp add: access_key_only_config_def)
qed

subsection \<open>Errors of the context\<close>

text \<open>
  C2, as claimed, fails for \<open>Status\<close>: under a canceled context the probe fails with
  an error that is \<open>context.Canceled\<close> (by \<open>errors.Is\<close>), and \<open>Status\<close> returns it inside
  \<open>ErrUnreachable\<close>, which is not that error.
\<close>

theorem Status_reclassifies_context_error:
  "env_Do (vault_env 1) CanceledContext ''https://localhost:4566'' = Inl (Wrapper ''Get: '' Canceled)
   \<and> errors_Is (Wrapper ''Get: '' Canceled) Canceled
   \<and> Status (vault_env 1) local_store CanceledContext = Inl (ErrUnreachable (Wrapper ''Get: '' Canceled))
   \<and> ErrUnreachable (Wrapper ''Get: '' Canceled) \<noteq> SdkError (Wrapper ''Get: '' Canceled)"
  by (simp add: vault_env_def Status_def local_store_def local_config_def)

text \<open>
  C2, amended. When the underlying call fails with an error that is \<open>context.Canceled\<close>
  or \<open>context.DeadlineExceeded\<close>, \<open>Create\<close>, \<open>Set\<close>, \<open>Get\<close> and \<open>Delete\<close> return that very
  error. \<open>List\<close> returns the error of a failed page fetch as it is, at whatever page the
  fetch fails (after any number of pages fetched), and any error it returns is the
  error of one of its page fetches, unchanged. \<open>Status\<close> returns every failure of its
  probe inside \<open>ErrUnreachable\<close>.
\<close>

theorem context_errors_unchanged:
  "(errors_Is err Canceled \<or> errors_Is err DeadlineExceeded \<longrightarrow>
       (client_CreateSecret env (client s) ctx (createInput s name val) w = (Inl err, w')
          \<longrightarrow> Create env s ctx name val w = (Some (SdkError err), w')
            \<and> Set env s ctx name val w = (Some (SdkError err), w'))
     \<and> (client_GetSecretValue env (client s) ctx \<lparr>gi_SecretId = name\<rparr> w = Inl err
          \<longrightarrow> Get env s ctx name w = Inl (SdkError err))
     \<and> (client_DeleteSecret env (client s) ctx
            \<lparr>di_SecretId = name, di_ForceDeleteWithoutRecovery = Some True\<rparr> w = (Inl err, w')
          \<longrightarrow> Delete env s ctx name w = (Some (SdkError err), w')))
   \<and> (pages_fetched env (client s) ctx w \<lparr>firstPage = True, nextToken = None\<rparr> pages p
        \<and> HasMorePages p
        \<and> client_ListSecrets env (client s) ctx (nextToken p) w = Inl err
        \<longrightarrow> List env s ctx pfx n w = Some (Inl (SdkError err)))
   \<and> (\<forall>e. List env s ctx pfx n w = Some (Inl e)
        \<longrightarrow> (\<exists>token err'. client_ListSecrets env (client s) ctx token w = Inl err'
               \<and> e = SdkError err'))
   \<and> (url = (if Addr (config s) = ''''
              then ''https://secretsmanager.'' @ Region (config s) @ ''.amazonaws.com''
              else ''https://'' @ Addr (config s))
        \<and> env_NewRequest env ctx url = None \<and> env_Do env ctx url = Inl err
        \<longrightarrow> Status env s ctx = Inl (ErrUnreachable err))"
  using List_fetch_error [of env s ctx w pages p err pfx n]
    List_error_is_page_error [of env s ctx pfx n w]
  by (auto simp: Create_def Set_def Get_def Delete_def Status_def)

theorem context_errors_unchanged_witness:
  "client_GetSecretValue (vault_env 1) (client local_store) ExpiredContext \<lparr>gi_SecretId = ''key''\<rparr> []
     = Inl (operation_error ''GetSecretValue'' DeadlineExceeded)
   \<and> errors_Is (operation_error ''GetSecretValue'' DeadlineExceeded) DeadlineExceeded
   \<and> Get (vault_env 1) local_store ExpiredContext ''key'' []
     = Inl (SdkError (operation_error ''GetSecretValue'' DeadlineExceeded))
   \<and> client_ListSecrets (second_page_fails_env DeadlineExceeded) (client local_store) Background None ()
     = Inr \<lparr>lo_SecretList = [Some ''db-a''], lo_NextToken = Some ''page-2''\<rparr>
   \<and> client_ListSecrets (second_page_fails_env DeadlineExceeded) (client local_store) Background
        (Some ''page-2'') ()
     = Inl (operation_error ''ListSecrets'' DeadlineExceeded)
   \<and> List (second_page_fails_env DeadlineExceeded) local_store Background '''' (-1) ()
     = Some (Inl (SdkError (operation_error ''ListSecrets'' DeadlineExceeded)))"
proof -
  let ?env = "second_page_fails_env DeadlineExceeded"
  let ?page = "\<lparr>lo_SecretList = [Some ''db-a''], lo_NextToken = Some ''page-2''\<rparr>"
  let ?p = "\<lparr>firstPage = False, nextToken = Some ''page-2''\<rparr>"
  have e: "errors_Is (operation_error ''GetSecretValue'' DeadlineExceeded) DeadlineExceeded"
    by (simp add: operation_error_def)
  have g: "client_GetSecretValue (vault_env 1) (client local_store) ExpiredContext \<lparr>gi_SecretId = ''key''\<rparr> []
     = Inl (operation_error ''GetSecretValue'' DeadlineExceeded)"
    by (simp add: client_GetSecretValue_def local_endpoint vault_env_def vault_GetSecretValue_def)
  have l1: "client_ListSecrets ?env (client local_store) Background None () = Inr ?page"
    by (simp add: client_ListSecrets_def local_endpoint second_page_fails_env_def)
  have l2: "client_ListSecrets ?env (client local_store) Background (Some ''page-2'') ()
     = Inl (operation_error ''ListSecrets'' DeadlineExceeded)"
    by (simp add: client_ListSecrets_def local_endpoint second_page_fails_env_def)
  have f: "pages_fetched ?env (client local_store) Background ()
             \<lparr>firstPage = True, nextToken = None\<rparr> [?page] ?p"
    using l1 by (simp add: HasMorePages_def)
  have m: "HasMorePages ?p" by (simp add: HasMorePages_def)
  have l2': "client_ListSecrets ?env (client local_store) Background (nextToken ?p) ()
     = Inl (operation_error ''ListSecrets'' DeadlineExceeded)"
    using l2 by simp
  have get: "Get (vault_env 1) local_store ExpiredContext ''key'' []
     = Inl (SdkError (operation_error ''GetSecretValue'' DeadlineExceeded))"
    using context_errors_unchanged
      [of "operation_error ''GetSecretValue'' DeadlineExceeded" "vault_env 1" local_store
        ExpiredContext "''key''" _ "[]"] e g
    by simp
  have list: "List ?env local_store Background '''' (-1) ()
     = Some (Inl (SdkError (operation_error ''ListSecrets'' DeadlineExceeded)))"
    using context_errors_unchanged
      [of "operation_error ''ListSecrets'' DeadlineExceeded" ?env local_store Background
        _ _ "()" _ "[?page]" ?p "''''" "-1"] f m l2'
    by blast
  from e g l1 l2 get list show ?thesis by simp
qed

subsection \<open>Failures that are not recognised\<close>

text \<open>
  C3, as claimed, fails for \<open>List\<close>: when the page fetch is refused (an error that is no
  context error and no recognised kind), \<open>List\<close> returns that error as it is, with no
  text of the operation around it.
\<close>

theorem List_returns_page_error_bare:
  "client_ListSecrets denying_env (client local_store) Background None ()
     = Inl (operation_error ''ListSecrets'' access_denied)
   \<and> \<not> errors_Is (operation_error ''ListSecrets'' access_denied) Canceled
   \<and> \<not> errors_Is (operation_error ''ListSecrets'' access_denied) DeadlineExceeded
   \<and> List denying_env local_store Background ''db-'' (-1) ()
     = Some (Inl (SdkError (operation_error ''ListSecrets'' access_denied)))"
  by (simp add: List_def List_pages.simps HasMorePages_def NextPage_def client_ListSecrets_def
      local_endpoint denying_env_def operation_error_def access_denied_def)

text \<open>
  C3, amended. For \<open>Create\<close>, \<open>Set\<close>, \<open>Get\<close> and \<open>Delete\<close>, a failure of the underlying
  call that is no context error and that the operation does not translate is returned
  as a new error whose text holds the operation (\<open>failed to create\<close>, \<open>failed to read\<close>,
  \<open>failed to delete\<close>), the quoted name of the entry and the text of the cause.
  \<open>List\<close> wraps nothing: the error of a failed page fetch, at whatever page the fetch
  fails, is returned as it is, and an error \<open>List\<close> returns is the error of a page fetch.
\<close>

theorem unknown_failures_wrapped:
  assumes "\<not> errors_Is err Canceled" and "\<not> errors_Is err DeadlineExceeded"
  shows "(client_CreateSecret env (client s) ctx (createInput s name val) w = (Inl err, w')
            \<and> \<not> as_ResourceExistsException err
            \<longrightarrow> Create env s ctx name val w
                  = (Some (Errorf (''aws: failed to create '' @ quoted name @ '': '' @ error_text err)), w')
              \<and> Set env s ctx name val w
                  = (Some (Errorf (''aws: failed to create '' @ quoted name @ '': '' @ error_text err)), w'))
       \<and> (client_GetSecretValue env (client s) ctx \<lparr>gi_SecretId = name\<rparr> w = Inl err
            \<and> \<not> as_DecryptionFailure err \<and> \<not> as_ResourceNotFoundException err
            \<and> as_APIError_code err \<noteq> Some ''DecryptionFailureException''
            \<and> as_APIError_code err \<noteq> Some ''ResourceNotFoundException''
            \<longrightarrow> Get env s ctx name w
                  = Inl (Errorf (''aws: failed to read '' @ quoted name @ '': '' @ error_text err)))
       \<and> (client_DeleteSecret env (client s) ctx
              \<lparr>di_SecretId = name, di_ForceDeleteWithoutRecovery = Some True\<rparr> w = (Inl err, w')
            \<and> \<not> as_ResourceNotFoundException err
            \<and> as_APIError_code err \<noteq> Some ''ResourceNotFoundException''
            \<longrightarrow> Delete env s ctx name w
                  = (Some (Errorf (''aws: failed to delete '' @ quoted name @ '': '' @ error_text err)), w'))
       \<and> (pages_fetched env (client s) ctx w \<lparr>firstPage = True, nextToken = None\<rparr> pages p
            \<and> HasMorePages p
            \<and> client_ListSecrets env (client s) ctx (nextToken p) w = Inl err
            \<longrightarrow> List env s ctx pfx n w = Some (Inl (SdkError err)))
       \<and> (\<forall>e. List env s ctx pfx n w = Some (Inl e)
            \<longrightarrow> (\<exists>token err'. client_ListSecrets env (client s) ctx token w = Inl err'
                   \<and> e = SdkError err'))"
  using assms List_fetch_error [of env s ctx w pages p err pfx n]
    List_error_is_page_error [of env s ctx pfx n w]
  by (auto simp: Create_def Set_def Get_def Delete_def)

theorem unknown_failures_wrapped_witness:
  "client_CreateSecret denying_env (client local_store) Background (createInput local_store ''key'' []) ()
     = (Inl (operation_error ''CreateSecret'' access_denied), ())
   \<and> \<not> errors_Is (operation_error ''CreateSecret'' access_denied) Canceled
   \<and> \<not> errors_Is (operation_error ''CreateSecret'' access_denied) DeadlineExceeded
   \<and> \<not> as_ResourceExistsException (operation_error ''CreateSecret'' access_denied)
   \<and> Create denying_env local_store Background ''key'' [] ()
     = (Some (Errorf (''aws: failed to create '' @ quoted ''key'' @ '': ''
          @ ''operation error Secrets Manager: CreateSecret, api error AccessDeniedException: not authorized'')), ())
   \<and> client_ListSecrets (second_page_fails_env access_denied) (client local_store) Background
        (Some ''page-2'') ()
     = Inl (operation_error ''ListSecrets'' access_denied)
   \<and> List (second_page_fails_env access_denied) local_store Background '''' (-1) ()
     = Some (Inl (SdkError (operation_error ''ListSecrets'' access_denied)))"
proof -
  let ?env = "second_page_fails_env access_denied"
  let ?page = "\<lparr>lo_SecretList = [Some ''db-a''], lo_NextToken = Some ''page-2''\<rparr>"
  let ?p = "\<lparr>firstPage = False, nextToken = Some ''page-2''\<rparr>"
  have 1: "\<not> errors_Is (operation_error ''CreateSecret'' access_denied) Canceled"
    and 2: "\<not> errors_Is (operation_error ''CreateSecret'' access_denied) DeadlineExceeded"
    and 3: "\<not> as_ResourceExistsException (operation_error ''CreateSecret'' access_denied)"
    and 4: "\<not> errors_Is (operation_error ''ListSecrets'' access_denied) Canceled"
    and 5: "\<not> errors_Is (operation_error ''ListSecrets'' access_denied) DeadlineExceeded"
    by (simp_all add: operation_error_def access_denied_def)
  have c: "client_CreateSecret denying_env (client local_store) Background (createInput local_store ''key'' []) ()
     = (Inl (operation_error ''CreateSecret'' access_denied), ())"
    by (simp add: client_CreateSecret_def local_endpoint denying_env_def)
  have t: "error_text (operation_error ''CreateSecret'' access_denied)
      = ''operation error Secrets Manager: CreateSecret, api error AccessDeniedException: not authorized''"
    by (simp add: operation_error_def access_denied_def)
  have l1: "client_ListSecrets ?env (client local_store) Background None () = Inr ?page"
    by (simp add: client_ListSecrets_def local_endpoint second_page_fails_env_def)
  have l2: "client_ListSecrets ?env (client local_store) Background (Some ''page-2'') ()
     = Inl (operation_error ''ListSecrets'' access_denied)"
    by (simp add: client_ListSecrets_def local_endpoint second_page_fails_env_def)
  have f: "pages_fetched ?env (client local_store) Background ()
             \<lparr>firstPage = True, nextToken = None\<rparr> [?page] ?p"
    using l1 by (simp add: HasMorePages_def)
  have m: "HasMorePages ?p" by (simp add: HasMorePages_def)
  have l2': "client_ListSecrets ?env (client local_store) Background (nextToken ?p) ()
     = Inl (operation_error ''ListSecrets'' access_denied)"
    using l2 by simp
  have create: "Create denying_env local_store Background ''key'' [] ()
     = (Some (Errorf (''aws: failed to create '' @ quoted ''key'' @ '': ''
          @ ''operation error Secrets Manager: CreateSecret, api error AccessDeniedException: not authorized'')), ())"
    using unknown_failures_wrapped [OF 1 2, of denying_env local_store Background "''key''" "[]" "()" "()"]
      3 c t
    by simp
  have list: "List ?env local_store Background '''' (-1) ()
     = Some (Inl (SdkError (operation_error ''ListSecrets'' access_denied)))"
    using unknown_failures_wrapped
      [OF 4 5, of ?env local_store Background _ _ "()" _ "[?page]" ?p "''''" "-1"] f m l2'
    by blast
  from 1 2 3 c l2 create list show ?thesis by simp
qed

subsection \<open>Create, Get, Set and Delete against the vault\<close>




text \<open>
  C5. Against the vault, with a client whose endpoint resolves: for a name that has an
  entry, \<open>Create\<close> under a live context returns \<open>ErrKeyExists\<close>, and under any context it
  leaves the vault as it was.
\<close>

theorem Create_existing:
  assumes "name \<in> set (map fst v)" and "client_endpoint (client s) = Inr ep"
  shows "Create (vault_env k) s Background name val v = (Some ErrKeyExists, v)
       \<and> snd (Create (vault_env k) s ctx name val v) = v"
  using assms
  by (cases ctx)
    (simp_all add: Create_def client_CreateSecret_def vault_env_def vault_CreateSecret_def
      operation_error_simps createInput_fields)

theorem Create_existing_witness:
  "''db-key-1'' \<in> set (map fst one_key)
   \<and> Create (vault_env 1) local_store Background ''db-key-1'' [1, 2] one_key
      = (Some ErrKeyExists, one_key)"
  using Create_existing [of "''db-key-1''" one_key local_store _ 1 "[1, 2]", OF _ local_endpoint]
  by (simp add: one_key_def)

text \<open>
  C7. When the call succeeds and exactly one of \<open>SecretString\<close> and \<open>SecretBinary\<close> of
  the response is set, \<open>Get\<close> returns the bytes of the one that is set: of the text,
  as many bytes as it has characters, each the byte of its character; of the binary,
  the bytes as they are.
\<close>

theorem Get_returns_populated:
  assumes "client_GetSecretValue env (client s) ctx \<lparr>gi_SecretId = name\<rparr> w = Inr response"
    and "(go_SecretString response \<noteq> None) \<noteq> (go_SecretBinary response \<noteq> None)"
  shows "(\<forall>str. go_SecretString response = Some str
            \<longrightarrow> (\<exists>bs. Get env s ctx name w = Inr bs
                   \<and> length bs = length str
                   \<and> (\<forall>i < length str. unat (bs ! i) = of_char (str ! i))
                   \<and> string_of_bytes bs = str))
       \<and> (\<forall>b. go_SecretBinary response = Some b \<longrightarrow> Get env s ctx name w = Inr b)"
proof -
  have "string_of_bytes (bytes_of_string str) = str" for str
    by (simp add: string_of_bytes_def bytes_of_string_def unat_of_nat take_bit_nat_eq_self
        map_idI)
  with assms bytes_of_string_nth show ?thesis
    by (auto simp: Get_def)
qed

theorem Get_returns_populated_witness:
  "client_GetSecretValue (vault_env 1) (client local_store) Background \<lparr>gi_SecretId = ''raw''\<rparr> binary_key
     = Inr \<lparr>go_SecretString = None, go_SecretBinary = Some [0xDE, 0xAD]\<rparr>
   \<and> Get (vault_env 1) local_store Background ''raw'' binary_key = Inr [0xDE, 0xAD]
   \<and> client_GetSecretValue (vault_env 1) (client local_store) Background
        \<lparr>gi_SecretId = ''db-key-1''\<rparr> one_key
     = Inr \<lparr>go_SecretString = Some ''secret-v1'', go_SecretBinary = None\<rparr>
   \<and> Get (vault_env 1) local_store Background ''db-key-1'' one_key
     = Inr [0x73, 0x65, 0x63, 0x72, 0x65, 0x74, 0x2D, 0x76, 0x31]"
proof -
  have r: "client_GetSecretValue (vault_env 1) (client local_store) Background
             \<lparr>gi_SecretId = ''raw''\<rparr> binary_key
           = Inr \<lparr>go_SecretString = None, go_SecretBinary = Some [0xDE, 0xAD]\<rparr>"
    by (simp add: client_GetSecretValue_def local_endpoint vault_env_def vault_GetSecretValue_def
        binary_key_def)
  have t: "client_GetSecretValue (vault_env 1) (client local_store) Background
             \<lparr>gi_SecretId = ''db-key-1''\<rparr> one_key
           = Inr \<lparr>go_SecretString = Some ''secret-v1'', go_SecretBinary = None\<rparr>"
    by (simp add: client_GetSecretValue_def local_endpoint vault_env_def vault_GetSecretValue_def
        one_key_def)
  from Get_returns_populated [OF t] obtain bs where
    g: "Get (vault_env 1) local_store Background ''db-key-1'' one_key = Inr bs"
    and s: "string_of_bytes bs = ''secret-v1''"
    by auto
  have "bs = bytes_of_string (string_of_bytes bs)" by (simp add: bytes_of_string_of_bytes)
  also have "\<dots> = [0x73, 0x65, 0x63, 0x72, 0x65, 0x74, 0x2D, 0x76, 0x31]"
    by (simp add: s bytes_of_string_def)
  finally have bs: "bs = [0x73, 0x65, 0x63, 0x72, 0x65, 0x74, 0x2D, 0x76, 0x31]" .
  show ?thesis
    using Get_returns_populated [OF r] r t g bs by simp
qed



text \<open>
  C9. \<open>Set\<close> is \<open>Create\<close>: for every environment, store, context, name, value and state
  of the service it returns the same error and leaves the same state.
\<close>

theorem Set_is_Create: "Set env s ctx name val w = Create env s ctx name val w"
  by (simp add: Set_def)

theorem Set_is_Create_witness:
  "Set (vault_env 1) local_store Background ''db-key-1'' [1, 2] one_key
     = Create (vault_env 1) local_store Background ''db-key-1'' [1, 2] one_key
   \<and> Set (vault_env 1) local_store Background ''db-key-1'' [1, 2] one_key
     = (Some ErrKeyExists, one_key)"
proof -
  have "Create (vault_env 1) local_store Background ''db-key-1'' [1, 2] one_key
          = (Some ErrKeyExists, one_key)"
    by (simp add: Create_def client_CreateSecret_def local_endpoint vault_env_def
        vault_CreateSecret_def operation_error_simps createInput_fields one_key_def)
  then show ?thesis
    using Set_is_Create [of "vault_env 1" local_store Background "''db-key-1''" "[1, 2]" one_key]
    by simp
qed

subsection \<open>List\<close>

text \<open>
  C6. Against the vault, under a live context, with a client whose endpoint resolves,
  names that are distinct and not empty, and pages of any size \<open>k > 0\<close>: \<open>List\<close> returns,
  and with a negative \<open>n\<close> its names are all the names that start with the prefix, with
  \<open>n \<ge> 0\<close> they are the first \<open>n\<close> of those (so at most \<open>n\<close>); the cursor is empty exactly
  when the names returned are all the matching names; no name is returned twice, and
  with the empty prefix and a negative \<open>n\<close> every name of the vault is returned; the
  result is the same for every page size.
\<close>

theorem List_exhausts_pages:
  assumes "0 < k" and "client_endpoint (client s) = Inr ep"
    and "distinct (map fst v)" and "'''' \<notin> set (map fst v)"
  shows "\<exists>names cursor.
           List (vault_env k) s Background pfx n v = Some (Inr (names, cursor))
           \<and> (n < 0 \<longrightarrow> names = filter (\<lambda>name. HasPrefix name pfx) (map fst v))
           \<and> (0 \<le> n \<longrightarrow> names = take (nat n) (filter (\<lambda>name. HasPrefix name pfx) (map fst v))
                          \<and> int (length names) \<le> n)
           \<and> (cursor = '''' \<longleftrightarrow> names = filter (\<lambda>name. HasPrefix name pfx) (map fst v))
           \<and> distinct names
           \<and> (pfx = '''' \<and> n < 0 \<longrightarrow> set names = set (map fst v))
           \<and> (\<forall>k'. 0 < k' \<longrightarrow> List (vault_env k') s Background pfx n v = Some (Inr (names, cursor)))"
proof -
  from keystore_List_props [OF assms(3,4), of pfx n]
  obtain result cursor where r: "keystore_List (map fst v) pfx n = (result, cursor)"
    and p: "(n < 0 \<longrightarrow> result = filter (\<lambda>name. HasPrefix name pfx) (map fst v))
           \<and> (0 \<le> n \<longrightarrow> result = take (nat n) (filter (\<lambda>name. HasPrefix name pfx) (map fst v))
                          \<and> int (length result) \<le> n)
           \<and> (cursor = '''' \<longleftrightarrow> result = filter (\<lambda>name. HasPrefix name pfx) (map fst v))
           \<and> distinct result
           \<and> (pfx = '''' \<and> n < 0 \<longrightarrow> set result = set (map fst v))"
    by blast
  have "List (vault_env k') s Background pfx n v = Some (Inr (result, cursor))" if "0 < k'" for k'
    using List_vault [OF that assms(2), of pfx n v] r by simp
  with p assms(1) show ?thesis by blast
qed

theorem List_exhausts_pages_witness:
  "distinct (map fst db_keys) \<and> '''' \<notin> set (map fst db_keys)
   \<and> List (vault_env 2) local_store Background ''db-'' 1 db_keys = Some (Inr ([''db-a''], ''db-b''))
   \<and> List (vault_env 3) local_store Background ''db-'' 1 db_keys = Some (Inr ([''db-a''], ''db-b''))"
proof -
  have d: "distinct (map fst db_keys)" and e: "'''' \<notin> set (map fst db_keys)"
    by (simp_all add: db_keys_def)
  from List_exhausts_pages [of 2 local_store _ db_keys "''db-''" 1, OF _ local_endpoint d e]
  obtain names cursor where
    l: "List (vault_env 2) local_store Background ''db-'' 1 db_keys = Some (Inr (names, cursor))"
    and l3: "List (vault_env 3) local_store Background ''db-'' 1 db_keys = Some (Inr (names, cursor))"
    by auto
  have ev: "List (vault_env 2) local_store Background ''db-'' 1 db_keys
              = Some (Inr ([''db-a''], ''db-b''))"
    by code_simp
  from l l3 d e ev show ?thesis by simp
qed

end
